theory Spec2Isabelle
  imports Main "HOL-Library.Word" "HOL-Library.Mapping" "HOL-Library.AList_Mapping"
    "HOL-Library.Monad_Syntax"
begin

unbundle bit_operations_syntax

section \<open>The cron exit probe: fork filter, tracking map, exit reporter\<close>

text \<open>
  A shallow embedding of \<^verbatim>\<open>src/agent/ebpf/cron_exit.c\<close> and of the type declarations
  of \<^verbatim>\<open>src/agent/ebpf/vmlinux.h\<close> it reads. The two tracepoint handlers are functions
  from the state of the two BPF maps to the returned integer and the new state. What the
  kernel helpers observe during one invocation (the running task, its name, kernel memory,
  room in the perf buffer) is an explicit argument. The result of \<open>get_task_ns_pid\<close> and
  of \<open>handle_exit\<close> is an option: \<open>None\<close> stands for a read outside the array
  \<open>numbers\<close>, which the theorems below show never happens.
\<close>

subsection \<open>Types of \<^verbatim>\<open>vmlinux.h\<close>\<close>

type_synonym u8 = "8 word"
type_synonym u32 = "32 word"
type_synonym u64 = "64 word"
type_synonym s32 = "32 word"  \<comment> \<open>C \<^verbatim>\<open>int\<close>: read with \<^term>\<open>sint\<close>\<close>
type_synonym pid_t = "32 word"  \<comment> \<open>\<^verbatim>\<open>typedef __u32 pid_t\<close>\<close>
type_synonym addr = "64 word"  \<comment> \<open>a kernel pointer; \<^verbatim>\<open>NULL\<close> is 0\<close>

definition BPF_ANY :: u64 where "BPF_ANY = 0"
definition BPF_NOEXIST :: u64 where "BPF_NOEXIST = 1"
definition BPF_EXIST :: u64 where "BPF_EXIST = 2"
definition BPF_F_CURRENT_CPU :: u64 where "BPF_F_CURRENT_CPU = 0xffffffff"

text \<open>\<^verbatim>\<open>struct upid { int nr; struct pid_namespace *ns; }\<close>\<close>

record upid =
  nr :: s32
  ns :: addr

text \<open>
  \<^verbatim>\<open>struct pid { unsigned int level; struct upid numbers[8]; }\<close>. The array is a function
  of the index; it has the eight entries 0 to 7, and \<open>numbers_at\<close> is the checked read:
  an index outside the declared array is \<open>None\<close>.
\<close>

record struct_pid =
  level :: u32
  numbers :: "nat \<Rightarrow> upid"

definition numbers_len :: nat where
  "numbers_len = 8"

definition numbers_at :: "struct_pid \<Rightarrow> nat \<Rightarrow> upid option" where
  "numbers_at p i = (if i < numbers_len then Some (numbers p i) else None)"

text \<open>\<^verbatim>\<open>struct task_struct\<close>, the fields the header declares.\<close>

record task_struct =
  pid :: pid_t
  real_parent :: addr
  thread_pid :: addr
  exit_code :: s32
  exit_signal :: s32

text \<open>Kernel memory as the probe sees it: the task and pid structures, by address.\<close>

record kmem =
  tasks :: "addr \<rightharpoonup> task_struct"
  pids :: "addr \<rightharpoonup> struct_pid"

subsection \<open>Types of \<^verbatim>\<open>cron_exit.c\<close>\<close>

record trace_event_raw_sched_process_fork =
  common_type :: "16 word"
  common_flags :: u8
  preempt_count :: u8
  common_pid :: s32
  parent_comm :: "u8 list"
  parent_pid :: pid_t
  child_comm :: "u8 list"
  child_pid :: pid_t

record trace_event_raw_sched_process_template =
  common_type :: "16 word"
  common_flags :: u8
  preempt_count :: u8
  common_pid :: s32

text \<open>\<^verbatim>\<open>struct event\<close>: the record written to the perf buffer.\<close>

record event =
  pid :: u32
  parent_pid :: u32
  ns_pid :: u32
  ns_parent_pid :: u32
  exit_code :: s32
  comm :: "u8 list"

text \<open>\<^verbatim>\<open>struct event evt = {}\<close>: every field zero, \<open>comm\<close> sixteen zero bytes.\<close>

definition event_zero :: event where
  "event_zero = \<lparr>pid = 0, parent_pid = 0, ns_pid = 0, ns_parent_pid = 0, exit_code = 0,
     comm = replicate 16 0\<rparr>"

text \<open>
  The two maps: \<open>monitored_pids\<close> (\<^verbatim>\<open>BPF_MAP_TYPE_HASH\<close>, key \<open>u32\<close>, value \<open>u8\<close>,
  \<open>max_entries\<close> 10240) and \<open>events\<close> (the perf event array), as the list of the records
  written to it so far.
\<close>

record bpf_maps =
  monitored_pids :: "(u32, u8) mapping"
  events :: "event list"

definition max_entries :: nat where
  "max_entries = 10240"

text \<open>What the helpers of one handler invocation observe.\<close>

record kenv =
  current_comm :: "u8 list"  \<comment> \<open>\<^verbatim>\<open>current->comm\<close>\<close>
  current_pid_tgid :: u64  \<comment> \<open>\<^verbatim>\<open>tgid << 32 | pid\<close> of the running task\<close>
  current_task :: addr
  mem :: kmem
  perf_room :: bool  \<comment> \<open>the perf buffer of this CPU accepts one more record\<close>

subsection \<open>Kernel helpers\<close>

text \<open>
  Modelled from the spec: the helpers of \<^verbatim>\<open>bpf/bpf_helpers.h\<close> and the
  \<^verbatim>\<open>BPF_CORE_READ\<close> macro of \<^verbatim>\<open>bpf/bpf_core_read.h\<close> are not part of the sources.
  The Tracking Map is "a fixed-capacity key to marker store supporting insert-or-update,
  point lookup, and point delete", where "capacity exhaustion causes inserts to fail
  silently" with no eviction, and deleting an absent key "is a no-op, not a fault"; the
  Event Channel takes a "best-effort, non-blocking write" whose failure loses the event.
  The helpers return 0 on success and a negative \<open>errno\<close> otherwise.
\<close>

definition bpf_get_current_comm :: "kenv \<Rightarrow> nat \<Rightarrow> u8 list" where
  "bpf_get_current_comm env n = take n (current_comm env @ replicate n 0)"

definition bpf_get_current_pid_tgid :: "kenv \<Rightarrow> u64" where
  "bpf_get_current_pid_tgid env = current_pid_tgid env"

definition bpf_get_current_task :: "kenv \<Rightarrow> addr" where
  "bpf_get_current_task env = current_task env"

definition bpf_map_lookup_elem :: "(u32, u8) mapping \<Rightarrow> u32 \<Rightarrow> u8 option" where
  "bpf_map_lookup_elem m k = Mapping.lookup m k"

definition bpf_map_update_elem ::
  "(u32, u8) mapping \<Rightarrow> u32 \<Rightarrow> u8 \<Rightarrow> u64 \<Rightarrow> int \<times> (u32, u8) mapping" where
  "bpf_map_update_elem m k v flags =
     (case Mapping.lookup m k of
        Some old \<Rightarrow> if flags = BPF_NOEXIST then (- 17, m) else (0, Mapping.update k v m)
      | None \<Rightarrow>
          if flags = BPF_EXIST then (- 2, m)
          else if Mapping.size m < max_entries then (0, Mapping.update k v m)
          else (- 7, m))"

definition bpf_map_delete_elem :: "(u32, u8) mapping \<Rightarrow> u32 \<Rightarrow> int \<times> (u32, u8) mapping" where
  "bpf_map_delete_elem m k =
     (case Mapping.lookup m k of
        Some old \<Rightarrow> (0, Mapping.delete k m)
      | None \<Rightarrow> (- 2, m))"

definition bpf_perf_event_output :: "kenv \<Rightarrow> event list \<Rightarrow> u64 \<Rightarrow> event \<Rightarrow> int \<times> event list" where
  "bpf_perf_event_output env ch flags evt =
     (if perf_room env then (0, ch @ [evt]) else (- 28, ch))"

text \<open>
  Modelled from the spec: \<^verbatim>\<open>BPF_CORE_READ\<close>, "read field F of kernel structure T", is
  absent from the sources. A read through a pointer that is \<^verbatim>\<open>NULL\<close> or names no
  structure cannot be performed; the destination is then all zero bytes, as the kernel's
  probe-read helper leaves it.
\<close>

definition read_task :: "kmem \<Rightarrow> addr \<Rightarrow> task_struct option" where
  "read_task km a = (if a = 0 then None else tasks km a)"

definition read_pid :: "kmem \<Rightarrow> addr \<Rightarrow> struct_pid option" where
  "read_pid km a = (if a = 0 then None else pids km a)"

definition core_read_thread_pid :: "kmem \<Rightarrow> addr \<Rightarrow> addr" where
  "core_read_thread_pid km task = (case read_task km task of None \<Rightarrow> 0 | Some t \<Rightarrow> thread_pid t)"

definition core_read_real_parent :: "kmem \<Rightarrow> addr \<Rightarrow> addr" where
  "core_read_real_parent km task = (case read_task km task of None \<Rightarrow> 0 | Some t \<Rightarrow> real_parent t)"

definition core_read_pid :: "kmem \<Rightarrow> addr \<Rightarrow> pid_t" where
  "core_read_pid km task = (case read_task km task of None \<Rightarrow> 0 | Some t \<Rightarrow> task_struct.pid t)"

definition core_read_exit_code :: "kmem \<Rightarrow> addr \<Rightarrow> s32" where
  "core_read_exit_code km task =
     (case read_task km task of None \<Rightarrow> 0 | Some t \<Rightarrow> task_struct.exit_code t)"

definition core_read_level :: "kmem \<Rightarrow> addr \<Rightarrow> u32" where
  "core_read_level km p = (case read_pid km p of None \<Rightarrow> 0 | Some ps \<Rightarrow> level ps)"

text \<open>
  \<^verbatim>\<open>BPF_CORE_READ(pid_struct, numbers[i].nr)\<close>: the index must lie in the declared array,
  whatever the pointer is; \<open>None\<close> is the read outside the array.
\<close>

definition core_read_numbers_nr :: "kmem \<Rightarrow> addr \<Rightarrow> nat \<Rightarrow> s32 option" where
  "core_read_numbers_nr km p i =
     (case read_pid km p of
        None \<Rightarrow> if i < numbers_len then Some 0 else None
      | Some ps \<Rightarrow> map_option nr (numbers_at ps i))"

subsection \<open>The program\<close>

text \<open>The character constants of the name comparison, as bytes.\<close>

definition c_char :: "char \<Rightarrow> u8" where
  "c_char c = of_char c"

definition handle_fork ::
  "kenv \<Rightarrow> trace_event_raw_sched_process_fork \<Rightarrow> bpf_maps \<Rightarrow> int \<times> bpf_maps" where
  "handle_fork env ctx s =
     (let parent_comm = bpf_get_current_comm env 16 in
      if (parent_comm ! 0 = c_char CHR ''c'' \<and> parent_comm ! 1 = c_char CHR ''r'' \<and>
          parent_comm ! 2 = c_char CHR ''o'' \<and> parent_comm ! 3 = c_char CHR ''n'') \<or>
         (parent_comm ! 0 = c_char CHR ''C'' \<and> parent_comm ! 1 = c_char CHR ''R'' \<and>
          parent_comm ! 2 = c_char CHR ''O'' \<and> parent_comm ! 3 = c_char CHR ''N'') \<or>
         (parent_comm ! 0 = c_char CHR ''c'' \<and> parent_comm ! 1 = c_char CHR ''r'' \<and>
          parent_comm ! 2 = c_char CHR ''o'' \<and> parent_comm ! 3 = c_char CHR ''n'' \<and>
          parent_comm ! 4 = c_char CHR ''d'')
      then
        let child_pid = child_pid ctx;
            val = 1;
            (rc, m) = bpf_map_update_elem (monitored_pids s) child_pid val BPF_ANY
        in (0, s\<lparr>monitored_pids := m\<rparr>)
      else (0, s))"

definition get_task_ns_pid :: "kmem \<Rightarrow> addr \<Rightarrow> u32 option" where
  "get_task_ns_pid km task =
     (let pid_struct = core_read_thread_pid km task;
          level = core_read_level km pid_struct
      in if level > 0 \<and> level < 8
         then core_read_numbers_nr km pid_struct (unat level)
         else core_read_numbers_nr km pid_struct 0)"

definition handle_exit ::
  "kenv \<Rightarrow> trace_event_raw_sched_process_template \<Rightarrow> bpf_maps \<Rightarrow> (int \<times> bpf_maps) option" where
  "handle_exit env ctx s =
     (let pid = ucast (drop_bit 32 (bpf_get_current_pid_tgid env)) :: u32;
          exists = bpf_map_lookup_elem (monitored_pids s) pid
      in if exists \<noteq> None then
           let evt = event_zero;
               evt = evt\<lparr>event.pid := pid\<rparr>;
               evt = evt\<lparr>comm := bpf_get_current_comm env 16\<rparr>;
               task = bpf_get_current_task env;
               exit_code = core_read_exit_code (mem env) task;
               evt = evt\<lparr>event.parent_pid :=
                       core_read_pid (mem env) (core_read_real_parent (mem env) task)\<rparr>
           in do {
             ns \<leftarrow> get_task_ns_pid (mem env) task;
             let evt = evt\<lparr>ns_pid := ns\<rparr>;
             let parent_task = core_read_real_parent (mem env) task;
             ns_parent \<leftarrow> (if parent_task \<noteq> 0 then get_task_ns_pid (mem env) parent_task
                           else Some 0);
             let evt = evt\<lparr>ns_parent_pid := ns_parent\<rparr>;
             let evt = evt\<lparr>event.exit_code := signed_drop_bit 8 exit_code AND 0xFF\<rparr>;
             let evt = (if exit_code AND 0x7F \<noteq> 0
                        then evt\<lparr>event.exit_code := 128 + (exit_code AND 0x7F)\<rparr> else evt);
             let (rc, ch) = bpf_perf_event_output env (events s) BPF_F_CURRENT_CPU evt;
             let (rc, m) = bpf_map_delete_elem (monitored_pids s) pid;
             Some (0, \<lparr>monitored_pids = m, events = ch\<rparr>)
           }
         else Some (0, s))"

subsection \<open>Sequences of tracepoint events\<close>

text \<open>
  The kernel runs a handler to completion at each tracepoint. An interleaving of fork and
  exit events is a list of events, each with what its handler observes; \<open>run\<close> applies the
  handlers in order.
\<close>

datatype kevent =
    Fork kenv trace_event_raw_sched_process_fork
  | Exit kenv trace_event_raw_sched_process_template

fun step :: "bpf_maps \<Rightarrow> kevent \<Rightarrow> bpf_maps option" where
  "step s (Fork env ctx) = Some (snd (handle_fork env ctx s))"
| "step s (Exit env ctx) = map_option snd (handle_exit env ctx s)"

fun run :: "bpf_maps \<Rightarrow> kevent list \<Rightarrow> bpf_maps option" where
  "run s [] = Some s"
| "run s (e # es) = (case step s e of None \<Rightarrow> None | Some s' \<Rightarrow> run s' es)"

definition init_maps :: bpf_maps where
  "init_maps = \<lparr>monitored_pids = Mapping.empty, events = []\<rparr>"

subsection \<open>Vocabulary of the statements\<close>

text \<open>The pid the exit handler looks up: the upper half of \<^verbatim>\<open>bpf_get_current_pid_tgid()\<close>.\<close>

definition exit_pid :: "kenv \<Rightarrow> u32" where
  "exit_pid env = ucast (drop_bit 32 (current_pid_tgid env))"

text \<open>
  The decoding of a wait status in the words of the specification: \<open>128 + signal\<close> when the
  low seven bits are not zero, the second byte otherwise.
\<close>

definition decode_status :: "s32 \<Rightarrow> s32" where
  "decode_status raw =
     (if raw AND 0x7F \<noteq> 0 then 128 + (raw AND 0x7F) else drop_bit 8 raw AND 0xFF)"

text \<open>
  The name matches when its first four bytes are \<open>cron\<close>, its first four bytes are
  \<open>CRON\<close>, or its first five bytes are \<open>crond\<close>.
\<close>

definition name_matches :: "u8 list \<Rightarrow> bool" where
  "name_matches name =
     (take 4 name = map c_char ''cron'' \<or> take 4 name = map c_char ''CRON'' \<or>
      take 5 name = map c_char ''crond'')"

text \<open>A pid is tracked in a state when it is a key of \<open>monitored_pids\<close>.\<close>

definition tracked :: "bpf_maps \<Rightarrow> u32 \<Rightarrow> bool" where
  "tracked s p = (Mapping.lookup (monitored_pids s) p \<noteq> None)"

text \<open>
  A fork whose calling process matches the name filter and whose child is \<open>p\<close>; an exit
  whose handler looks up \<open>p\<close>; a matching fork whose upsert the map refuses (an insert lost
  to capacity), and the traces where that never happens.
\<close>

fun matching_fork :: "kevent \<Rightarrow> u32 \<Rightarrow> bool" where
  "matching_fork (Fork env ctx) p =
     (name_matches (bpf_get_current_comm env 16) \<and> child_pid ctx = p)"
| "matching_fork (Exit env ctx) p = False"

fun exit_of :: "kevent \<Rightarrow> u32 \<Rightarrow> bool" where
  "exit_of (Exit env ctx) p = (exit_pid env = p)"
| "exit_of (Fork env ctx) p = False"

fun insert_lost :: "bpf_maps \<Rightarrow> kevent \<Rightarrow> bool" where
  "insert_lost s (Fork env ctx) =
     (name_matches (bpf_get_current_comm env 16) \<and>
      fst (bpf_map_update_elem (monitored_pids s) (child_pid ctx) 1 BPF_ANY) \<noteq> 0)"
| "insert_lost s (Exit env ctx) = False"

fun no_insert_lost :: "bpf_maps \<Rightarrow> kevent list \<Rightarrow> bool" where
  "no_insert_lost s [] = True"
| "no_insert_lost s (e # es) =
     (\<not> insert_lost s e \<and>
      (case step s e of None \<Rightarrow> False | Some s' \<Rightarrow> no_insert_lost s' es))"

text \<open>
  The right-hand side of the invariant, in the words of the specification: some event
  \<open>i\<close> of the trace is a matching fork of \<open>p\<close>, and no later event is an exit of \<open>p\<close>.
\<close>

definition tracked_by_trace :: "kevent list \<Rightarrow> u32 \<Rightarrow> bool" where
  "tracked_by_trace es p =
     (\<exists>i \<in> {0..<length es}. matching_fork (es ! i) p \<and>
        (\<forall>j \<in> {i + 1..<length es}. \<not> exit_of (es ! j) p))"

subsection \<open>Sample inputs\<close>

text \<open>
  A small kernel memory for the closed instances below: the exiting task at \<open>0x1000\<close>
  (pid 4242) with its pid structure at \<open>0x3000\<close>, whose entry \<open>i\<close> holds the id \<open>100 + i\<close>,
  and a parent task at \<open>0x2000\<close> (pid 900) in the outermost namespace only.
\<close>

definition sample_numbers :: "nat \<Rightarrow> upid" where
  "sample_numbers i = \<lparr>nr = of_nat (100 + i), ns = 0\<rparr>"

definition sample_mem :: "u32 \<Rightarrow> s32 \<Rightarrow> addr \<Rightarrow> kmem" where
  "sample_mem lvl raw parent =
     \<lparr>tasks = [0x1000 \<mapsto> \<lparr>task_struct.pid = 4242, real_parent = parent, thread_pid = 0x3000,
                            task_struct.exit_code = raw, exit_signal = 17\<rparr>,
               0x2000 \<mapsto> \<lparr>task_struct.pid = 900, real_parent = 0, thread_pid = 0x4000,
                            task_struct.exit_code = 0, exit_signal = 17\<rparr>],
      pids = [0x3000 \<mapsto> \<lparr>level = lvl, numbers = sample_numbers\<rparr>,
              0x4000 \<mapsto> \<lparr>level = 0, numbers = (\<lambda>i. \<lparr>nr = 900, ns = 0\<rparr>)\<rparr>]\<rparr>"

definition sample_env :: "u32 \<Rightarrow> s32 \<Rightarrow> addr \<Rightarrow> bool \<Rightarrow> kenv" where
  "sample_env lvl raw parent room =
     \<lparr>current_comm = map c_char ''backup.sh'' @ replicate 7 0,
      current_pid_tgid = 0x109200001092,
      current_task = 0x1000,
      mem = sample_mem lvl raw parent,
      perf_room = room\<rparr>"

definition sample_exit_ctx :: trace_event_raw_sched_process_template where
  "sample_exit_ctx = \<lparr>common_type = 0, common_flags = 0, preempt_count = 0, common_pid = 4242\<rparr>"

definition sample_maps :: bpf_maps where
  "sample_maps = \<lparr>monitored_pids = Mapping.update 4242 1 Mapping.empty, events = []\<rparr>"

text \<open>
  Sample inputs of the fork handler: a parent task (pid 900) with a given name, the
  tracepoint record of a fork with a given child, and a Tracking Map holding the 10240
  keys 0 to 10239.
\<close>

definition sample_fork_env :: "string \<Rightarrow> kenv" where
  "sample_fork_env name =
     \<lparr>current_comm = map c_char name @ replicate (16 - length name) 0,
      current_pid_tgid = 0x38400000384,
      current_task = 0x2000,
      mem = sample_mem 0 0 0x2000,
      perf_room = True\<rparr>"

definition sample_fork_ctx :: "pid_t \<Rightarrow> trace_event_raw_sched_process_fork" where
  "sample_fork_ctx child =
     \<lparr>trace_event_raw_sched_process_fork.common_type = 0,
      trace_event_raw_sched_process_fork.common_flags = 0,
      trace_event_raw_sched_process_fork.preempt_count = 0,
      trace_event_raw_sched_process_fork.common_pid = 900,
      parent_comm = map c_char ''cron'' @ replicate 12 0,
      trace_event_raw_sched_process_fork.parent_pid = 900,
      child_comm = map c_char ''cron'' @ replicate 12 0,
      child_pid = child\<rparr>"

definition full_map :: "(u32, u8) mapping" where
  "full_map = Mapping.tabulate (map of_nat [0..<10240]) (\<lambda>k. 1)"

text \<open>A sample trace: three forks (two by a scheduler) and the exit of pid 4242.\<close>

definition sample_trace :: "kevent list" where
  "sample_trace =
     [Fork (sample_fork_env ''crond'') (sample_fork_ctx 4242),
      Fork (sample_fork_env ''bash'') (sample_fork_ctx 555),
      Fork (sample_fork_env ''CRON'') (sample_fork_ctx 777),
      Exit (sample_env 3 0x2A00 0x2000 True) sample_exit_ctx]"

section \<open>Basic facts about the handlers\<close>

subsection \<open>The resolver\<close>

lemma get_task_ns_pid_total: "\<exists>v. get_task_ns_pid km task = Some v"
  by (auto simp: get_task_ns_pid_def core_read_numbers_nr_def numbers_at_def numbers_len_def
      Let_def word_less_nat_alt split: option.splits)

lemma parent_ns_total:
  "\<exists>v. (if p \<noteq> 0 then get_task_ns_pid km p else Some 0) = Some v"
  using get_task_ns_pid_total by (cases "p = 0") auto

subsection \<open>The exit handler\<close>

text \<open>
  C shifts a negative \<^verbatim>\<open>int\<close> arithmetically; under the mask \<open>0xFF\<close> the arithmetic and
  the logical shift by eight agree.
\<close>

lemma signed_shift_low_byte: "signed_drop_bit 8 (w::32 word) AND 0xFF = drop_bit 8 w AND 0xFF"
proof -
  have m: "(0xFF :: 32 word) = mask 8" by (simp add: mask_eq_exp_minus_1)
  show ?thesis unfolding m
    by (rule bit_word_eqI) (auto simp add: bit_simps)
qed

lemma handle_exit_miss:
  assumes "Mapping.lookup (monitored_pids s) (exit_pid env) = None"
  shows "handle_exit env ctx s = Some (0, s)"
  using assms
  by (simp add: handle_exit_def exit_pid_def bpf_map_lookup_elem_def
      bpf_get_current_pid_tgid_def Let_def)

lemma handle_exit_hit:
  assumes hit: "Mapping.lookup (monitored_pids s) (exit_pid env) \<noteq> None"
    and v1: "get_task_ns_pid (mem env) (current_task env) = Some v1"
    and v2: "(if core_read_real_parent (mem env) (current_task env) \<noteq> 0
               then get_task_ns_pid (mem env) (core_read_real_parent (mem env) (current_task env))
               else Some 0) = Some v2"
  shows "handle_exit env ctx s =
    Some (0, \<lparr>monitored_pids = Mapping.delete (exit_pid env) (monitored_pids s),
              events = (if perf_room env then events s @
                 [\<lparr>pid = exit_pid env,
                   parent_pid = core_read_pid (mem env)
                      (core_read_real_parent (mem env) (current_task env)),
                   ns_pid = v1,
                   ns_parent_pid = v2,
                   exit_code = decode_status (core_read_exit_code (mem env) (current_task env)),
                   comm = bpf_get_current_comm env 16\<rparr>]
                 else events s)\<rparr>)"
proof -
  from hit obtain v where v: "Mapping.lookup (monitored_pids s) (exit_pid env) = Some v"
    by auto
  show ?thesis
    using v v1 v2
    unfolding handle_exit_def
    by (simp add: exit_pid_def bpf_map_lookup_elem_def bpf_get_current_pid_tgid_def
        bpf_get_current_task_def bpf_perf_event_output_def bpf_map_delete_elem_def
        event_zero_def decode_status_def signed_shift_low_byte Let_def
        del: not_None_eq)
qed

lemma handle_exit_tracking:
  "\<exists>s'. handle_exit env ctx s = Some (0, s') \<and>
        monitored_pids s' = Mapping.delete (exit_pid env) (monitored_pids s)"
proof (cases "Mapping.lookup (monitored_pids s) (exit_pid env) = None")
  case True
  then have "exit_pid env \<notin> Mapping.keys (monitored_pids s)"
    by (simp add: keys_dom_lookup domIff)
  with True show ?thesis by (simp add: handle_exit_miss)
next
  case False
  obtain v1 where v1: "get_task_ns_pid (mem env) (current_task env) = Some v1"
    using get_task_ns_pid_total by blast
  obtain v2 where v2: "(if core_read_real_parent (mem env) (current_task env) \<noteq> 0
       then get_task_ns_pid (mem env) (core_read_real_parent (mem env) (current_task env))
       else Some 0) = Some v2"
    using parent_ns_total by blast
  show ?thesis
    using handle_exit_hit [OF False v1 v2, of ctx] by simp
qed

lemma handle_exit_total: "\<exists>s'. handle_exit env ctx s = Some (0, s')"
  using handle_exit_tracking [of env ctx s] by blast

subsection \<open>The fork handler\<close>

lemma length_current_comm [simp]: "length (bpf_get_current_comm env n) = n"
  by (simp add: bpf_get_current_comm_def)

lemma take4_nth: "4 \<le> length xs \<Longrightarrow> take 4 xs = [xs ! 0, xs ! 1, xs ! 2, xs ! 3]"
  by (auto simp: numeral_eq_Suc Suc_le_length_iff)

lemma take5_nth: "5 \<le> length xs \<Longrightarrow> take 5 xs = [xs ! 0, xs ! 1, xs ! 2, xs ! 3, xs ! 4]"
  by (auto simp: numeral_eq_Suc Suc_le_length_iff)

lemma name_matches_bytes:
  assumes "5 \<le> length name"
  shows "name_matches name \<longleftrightarrow>
     (name ! 0 = c_char CHR ''c'' \<and> name ! 1 = c_char CHR ''r'' \<and>
      name ! 2 = c_char CHR ''o'' \<and> name ! 3 = c_char CHR ''n'') \<or>
     (name ! 0 = c_char CHR ''C'' \<and> name ! 1 = c_char CHR ''R'' \<and>
      name ! 2 = c_char CHR ''O'' \<and> name ! 3 = c_char CHR ''N'') \<or>
     (name ! 0 = c_char CHR ''c'' \<and> name ! 1 = c_char CHR ''r'' \<and>
      name ! 2 = c_char CHR ''o'' \<and> name ! 3 = c_char CHR ''n'' \<and>
      name ! 4 = c_char CHR ''d'')"
proof -
  have 4: "4 \<le> length name" using assms by simp
  show ?thesis
    unfolding name_matches_def take4_nth [OF 4] take5_nth [OF assms] by auto
qed

lemma update_any:
  "bpf_map_update_elem m k v BPF_ANY =
     (if Mapping.lookup m k \<noteq> None \<or> Mapping.size m < max_entries
      then (0, Mapping.update k v m) else (- 7, m))"
  by (simp add: bpf_map_update_elem_def BPF_ANY_def BPF_NOEXIST_def BPF_EXIST_def
      split: option.splits)

lemma handle_fork_eq:
  "handle_fork env ctx s =
     (0, if name_matches (bpf_get_current_comm env 16)
         then s\<lparr>monitored_pids :=
                  snd (bpf_map_update_elem (monitored_pids s) (child_pid ctx) 1 BPF_ANY)\<rparr>
         else s)"
proof -
  have "5 \<le> length (bpf_get_current_comm env 16)" by simp
  from name_matches_bytes [OF this] show ?thesis
    unfolding handle_fork_def by (simp add: Let_def split_beta)
qed

subsection \<open>Tracked pids after one handler\<close>

lemma lookup_delete_iff:
  "Mapping.lookup (Mapping.delete k m) p \<noteq> None \<longleftrightarrow> Mapping.lookup m p \<noteq> None \<and> p \<noteq> k"
  by (cases "p = k") simp_all

lemma lookup_update_iff:
  "Mapping.lookup (Mapping.update k v m) p \<noteq> None \<longleftrightarrow> p = k \<or> Mapping.lookup m p \<noteq> None"
  by (cases "p = k") simp_all

lemma tracked_update:
  "tracked (s\<lparr>monitored_pids := Mapping.update k v (monitored_pids s)\<rparr>) p \<longleftrightarrow>
     p = k \<or> tracked s p"
  unfolding tracked_def by (simp add: lookup_update_iff del: not_None_eq)

lemma handle_fork_tracked:
  assumes "\<not> insert_lost s (Fork env ctx)"
  shows "tracked (snd (handle_fork env ctx s)) p \<longleftrightarrow>
     (name_matches (bpf_get_current_comm env 16) \<and> child_pid ctx = p) \<or> tracked s p"
proof (cases "name_matches (bpf_get_current_comm env 16)")
  case False
  then show ?thesis by (simp add: handle_fork_eq)
next
  case True
  with assms have "fst (bpf_map_update_elem (monitored_pids s) (child_pid ctx) 1 BPF_ANY) = 0"
    by simp
  then have "bpf_map_update_elem (monitored_pids s) (child_pid ctx) 1 BPF_ANY =
      (0, Mapping.update (child_pid ctx) 1 (monitored_pids s))"
    by (simp add: update_any split: if_splits)
  with True have "snd (handle_fork env ctx s) =
      s\<lparr>monitored_pids := Mapping.update (child_pid ctx) 1 (monitored_pids s)\<rparr>"
    by (simp add: handle_fork_eq)
  with True show ?thesis by (auto simp: tracked_update)
qed

lemma handle_fork_tracked_only_if:
  assumes "tracked (snd (handle_fork env ctx s)) p"
  shows "(name_matches (bpf_get_current_comm env 16) \<and> child_pid ctx = p) \<or> tracked s p"
proof (cases "name_matches (bpf_get_current_comm env 16) \<and>
    fst (bpf_map_update_elem (monitored_pids s) (child_pid ctx) 1 BPF_ANY) = 0")
  case True
  then have "\<not> insert_lost s (Fork env ctx)" by simp
  from handle_fork_tracked [OF this] assms show ?thesis by simp
next
  case False
  then have "snd (handle_fork env ctx s) = s \<or>
     snd (handle_fork env ctx s) = s\<lparr>monitored_pids := monitored_pids s\<rparr>"
    by (auto simp: handle_fork_eq update_any split: if_splits)
  then have "snd (handle_fork env ctx s) = s" by auto
  with assms show ?thesis by simp
qed

subsection \<open>Runs\<close>

lemma step_total: "\<exists>s'. step s e = Some s'"
  using handle_exit_total by (cases e) (auto, fastforce)

lemma run_total: "\<exists>s'. run s es = Some s'"
proof (induction es arbitrary: s)
  case Nil
  show ?case by simp
next
  case (Cons e es)
  obtain s1 where "step s e = Some s1" using step_total by blast
  with Cons [of s1] show ?case by simp
qed

lemma run_snoc: "run s (es @ [e]) = (case run s es of None \<Rightarrow> None | Some s' \<Rightarrow> step s' e)"
  by (induction es arbitrary: s) (auto split: option.splits)

lemma no_insert_lost_snoc:
  "no_insert_lost s (es @ [e]) \<longleftrightarrow>
     no_insert_lost s es \<and> (\<exists>s'. run s es = Some s' \<and> \<not> insert_lost s' e)"
proof (induction es arbitrary: s)
  case Nil
  obtain s1 where "step s e = Some s1" using step_total by blast
  then show ?case by simp
next
  case (Cons a es)
  obtain s1 where "step s a = Some s1" using step_total by blast
  with Cons [of s1] show ?case by auto
qed

lemma step_tracked:
  assumes "step s e = Some s'" and "\<not> insert_lost s e"
  shows "tracked s' p \<longleftrightarrow> matching_fork e p \<or> (tracked s p \<and> \<not> exit_of e p)"
proof (cases e)
  case (Fork env ctx)
  with assms handle_fork_tracked [of s env ctx p] show ?thesis by auto
next
  case (Exit env ctx)
  obtain s1 where s1: "handle_exit env ctx s = Some (0, s1)"
    "monitored_pids s1 = Mapping.delete (exit_pid env) (monitored_pids s)"
    using handle_exit_tracking by blast
  with assms Exit have "s' = s1" by simp
  with s1 Exit show ?thesis
    by (auto simp: tracked_def lookup_delete_iff simp del: not_None_eq)
qed

lemma step_tracked_only_if:
  assumes "step s e = Some s'" and "tracked s' p"
  shows "matching_fork e p \<or> tracked s p"
proof (cases e)
  case (Fork env ctx)
  with assms handle_fork_tracked_only_if [of env ctx s p] show ?thesis by auto
next
  case (Exit env ctx)
  obtain s1 where s1: "handle_exit env ctx s = Some (0, s1)"
    "monitored_pids s1 = Mapping.delete (exit_pid env) (monitored_pids s)"
    using handle_exit_tracking by blast
  with assms Exit have "s' = s1" by simp
  with s1 Exit assms(2) show ?thesis
    by (auto simp: tracked_def lookup_delete_iff simp del: not_None_eq)
qed

lemma run_untracked:
  "run s es = Some s' \<Longrightarrow> \<not> tracked s p \<Longrightarrow> \<forall>e \<in> set es. \<not> matching_fork e p \<Longrightarrow>
     \<not> tracked s' p"
proof (induction es arbitrary: s)
  case Nil
  then show ?case by simp
next
  case (Cons e es)
  obtain s1 where s1: "step s e = Some s1" using step_total by blast
  with Cons.prems(1) have r: "run s1 es = Some s'" by simp
  have "\<not> tracked s1 p"
    using step_tracked_only_if [OF s1, of p] Cons.prems(2,3) by auto
  from Cons.IH [OF r this] Cons.prems(3) show ?case by simp
qed

lemma tracked_by_trace_Nil: "\<not> tracked_by_trace [] p"
  by (simp add: tracked_by_trace_def)

lemma tracked_by_trace_snoc:
  "tracked_by_trace (es @ [e]) p \<longleftrightarrow>
     matching_fork e p \<or> (tracked_by_trace es p \<and> \<not> exit_of e p)"
proof
  assume "tracked_by_trace (es @ [e]) p"
  then obtain i where i: "i < Suc (length es)" "matching_fork ((es @ [e]) ! i) p"
    "\<forall>j. i < j \<and> j < Suc (length es) \<longrightarrow> \<not> exit_of ((es @ [e]) ! j) p"
    by (auto simp: tracked_by_trace_def)
  show "matching_fork e p \<or> (tracked_by_trace es p \<and> \<not> exit_of e p)"
  proof (cases "i = length es")
    case True
    with i(2) show ?thesis by simp
  next
    case False
    with i(1) have lt: "i < length es" by simp
    with i(2) have m: "matching_fork (es ! i) p" by (simp add: nth_append)
    from i(3) lt have "\<not> exit_of ((es @ [e]) ! length es) p" by blast
    then have ne: "\<not> exit_of e p" by simp
    have "\<forall>j. i < j \<and> j < length es \<longrightarrow> \<not> exit_of (es ! j) p"
    proof (intro allI impI)
      fix j assume j: "i < j \<and> j < length es"
      with i(3) have "\<not> exit_of ((es @ [e]) ! j) p" by simp
      with j show "\<not> exit_of (es ! j) p" by (simp add: nth_append)
    qed
    with lt m have "tracked_by_trace es p"
      by (auto simp: tracked_by_trace_def)
    with ne show ?thesis by simp
  qed
next
  assume r: "matching_fork e p \<or> (tracked_by_trace es p \<and> \<not> exit_of e p)"
  show "tracked_by_trace (es @ [e]) p"
  proof (cases "matching_fork e p")
    case True
    then show ?thesis
      unfolding tracked_by_trace_def
      by (intro bexI [of _ "length es"]) auto
  next
    case False
    with r have t: "tracked_by_trace es p" and ne: "\<not> exit_of e p" by auto
    from t obtain i where i: "i < length es" "matching_fork (es ! i) p"
      "\<forall>j. i < j \<and> j < length es \<longrightarrow> \<not> exit_of (es ! j) p"
      by (auto simp: tracked_by_trace_def)
    have "\<forall>j\<in>{i + 1..<length (es @ [e])}. \<not> exit_of ((es @ [e]) ! j) p"
    proof
      fix j assume "j \<in> {i + 1..<length (es @ [e])}"
      then have j: "i < j" "j < Suc (length es)" by auto
      show "\<not> exit_of ((es @ [e]) ! j) p"
      proof (cases "j = length es")
        case True
        with ne show ?thesis by simp
      next
        case False
        with j have "j < length es" by simp
        with i(3) j(1) show ?thesis by (simp add: nth_append)
      qed
    qed
    with i(1,2) show ?thesis
      unfolding tracked_by_trace_def
      by (intro bexI [of _ i]) (auto simp: nth_append)
  qed
qed

lemma run_tracked_iff:
  "no_insert_lost init_maps es \<Longrightarrow>
     \<exists>s. run init_maps es = Some s \<and> (\<forall>p. tracked s p \<longleftrightarrow> tracked_by_trace es p)"
proof (induction es rule: rev_induct)
  case Nil
  show ?case by (simp add: tracked_by_trace_Nil tracked_def init_maps_def)
next
  case (snoc e es)
  from snoc.prems obtain s1 where
    n: "no_insert_lost init_maps es" and r: "run init_maps es = Some s1"
    and l: "\<not> insert_lost s1 e"
    by (auto simp: no_insert_lost_snoc)
  from snoc.IH [OF n] r have inv: "\<forall>p. tracked s1 p \<longleftrightarrow> tracked_by_trace es p" by simp
  obtain s2 where s2: "step s1 e = Some s2" using step_total by blast
  have "\<forall>p. tracked s2 p \<longleftrightarrow> tracked_by_trace (es @ [e]) p"
    using step_tracked [OF s2 l] inv by (simp add: tracked_by_trace_snoc)
  with r s2 show ?case by (simp add: run_snoc)
qed

subsection \<open>The sample inputs\<close>

lemma sample_exit_pid: "exit_pid (sample_env lvl raw parent room) = 4242"
  by (simp add: exit_pid_def sample_env_def)

lemma sample_hit:
  "Mapping.lookup (monitored_pids sample_maps) (exit_pid (sample_env lvl raw parent room)) \<noteq> None"
  by (simp add: sample_exit_pid sample_maps_def)

lemma sample_child_pid [simp]: "child_pid (sample_fork_ctx c) = c"
  by (simp add: sample_fork_ctx_def)

lemma sample_name_cron: "name_matches (bpf_get_current_comm (sample_fork_env ''crond'') 16)"
  by (simp add: name_matches_def bpf_get_current_comm_def sample_fork_env_def)

lemma sample_name_CRON: "name_matches (bpf_get_current_comm (sample_fork_env ''CRON'') 16)"
  by (simp add: name_matches_def bpf_get_current_comm_def sample_fork_env_def)

lemma sample_name_bash: "\<not> name_matches (bpf_get_current_comm (sample_fork_env ''bash'') 16)"
  by (simp add: name_matches_def bpf_get_current_comm_def sample_fork_env_def c_char_def)

lemma sample_ns_pid: "get_task_ns_pid (sample_mem 3 raw 0x2000) 0x1000 = Some 103"
  by (simp add: get_task_ns_pid_def core_read_thread_pid_def core_read_level_def
      core_read_numbers_nr_def read_task_def read_pid_def numbers_at_def numbers_len_def
      sample_mem_def sample_numbers_def)

lemma sample_parent_ns_pid: "get_task_ns_pid (sample_mem lvl raw parent) 0x2000 = Some 900"
  by (simp add: get_task_ns_pid_def core_read_thread_pid_def core_read_level_def
      core_read_numbers_nr_def read_task_def read_pid_def numbers_at_def numbers_len_def
      sample_mem_def)

lemma of_nat_u32_eq: "m < 2 ^ 32 \<Longrightarrow> n < 2 ^ 32 \<Longrightarrow> (of_nat m :: u32) = of_nat n \<longleftrightarrow> m = n"
  by (simp add: word_of_nat_eq_iff take_bit_nat_eq_self)

lemma distinct_keys: "distinct (map (of_nat :: nat \<Rightarrow> u32) [0..<10240])"
  by (simp add: distinct_map inj_on_def of_nat_u32_eq)

lemma size_full_map: "Mapping.size full_map = 10240"
  by (simp add: full_map_def distinct_remdups_id [OF distinct_keys])

lemma lookup_full_map: "Mapping.lookup full_map 10240 = None"
proof -
  have "(10240 :: u32) \<notin> set (map of_nat [0..<10240])"
  proof
    assume "(10240 :: u32) \<in> set (map of_nat [0..<10240])"
    then obtain n where n: "n < 10240" "(of_nat n :: u32) = 10240" by auto
    have "(of_nat n :: u32) = of_nat 10240" using n(2) by simp
    then have "n = 10240" using of_nat_u32_eq [of n 10240] n(1) by simp
    with n(1) show False by simp
  qed
  then show ?thesis
    by (simp add: full_map_def lookup_tabulate [OF distinct_keys])
qed

lemma sample_trace_no_loss: "no_insert_lost init_maps sample_trace"
proof -
  obtain s' where "handle_exit (sample_env 3 0x2A00 0x2000 True) sample_exit_ctx
      \<lparr>monitored_pids = Mapping.update 777 1 (Mapping.update 4242 1 Mapping.empty),
       events = []\<rparr> = Some (0, s')"
    using handle_exit_total by blast
  then show ?thesis
    using sample_name_cron sample_name_bash sample_name_CRON
    by (simp add: sample_trace_def init_maps_def handle_fork_eq update_any max_entries_def
      Mapping.size_update)
qed

section \<open>Exit-code decoding\<close>

text \<open>
  Claim C1. When the exiting pid is tracked and the perf buffer has room, the exit handler
  emits one record whose \<open>exit_code\<close> is decoded from the raw 32-bit status \<open>raw\<close> read
  from the task: \<open>128 + (raw & 0x7F)\<close> when the low seven bits are not zero, and
  \<open>(raw >> 8) & 0xFF\<close> otherwise. So \<open>0x0000\<close> gives 0, \<open>0x2A00\<close> gives 42 and
  \<open>0x0009\<close> gives 137.
\<close>

theorem exit_code_decoding:
  assumes "Mapping.lookup (monitored_pids s) (exit_pid env) \<noteq> None"
    and "perf_room env"
    and "core_read_exit_code (mem env) (current_task env) = raw"
  shows "\<exists>s' evt. handle_exit env ctx s = Some (0, s') \<and> events s' = events s @ [evt] \<and>
           event.exit_code evt =
             (if raw AND 0x7F \<noteq> 0 then 128 + (raw AND 0x7F) else drop_bit 8 raw AND 0xFF) \<and>
           (raw = 0x0000 \<longrightarrow> event.exit_code evt = 0) \<and>
           (raw = 0x2A00 \<longrightarrow> event.exit_code evt = 42) \<and>
           (raw = 0x0009 \<longrightarrow> event.exit_code evt = 137)"
proof -
  obtain v1 where v1: "get_task_ns_pid (mem env) (current_task env) = Some v1"
    using get_task_ns_pid_total by blast
  obtain v2 where v2: "(if core_read_real_parent (mem env) (current_task env) \<noteq> 0
       then get_task_ns_pid (mem env) (core_read_real_parent (mem env) (current_task env))
       else Some 0) = Some v2"
    using get_task_ns_pid_total
    by (cases "core_read_real_parent (mem env) (current_task env) = 0") auto
  have d0: "decode_status 0 = 0" and d42: "decode_status 0x2A00 = 42"
    and d137: "decode_status 9 = 137"
    by (simp_all add: decode_status_def)
  show ?thesis
    using handle_exit_hit [OF assms(1) v1 v2, of ctx] assms(2,3) d0 d42 d137
    by (auto simp: decode_status_def)
qed

theorem exit_code_decoding_witness:
  "(\<exists>s' evt. handle_exit (sample_env 3 0x0000 0x2000 True) sample_exit_ctx sample_maps = Some (0, s')
       \<and> events s' = [evt] \<and> event.exit_code evt = 0) \<and>
   (\<exists>s' evt. handle_exit (sample_env 3 0x2A00 0x2000 True) sample_exit_ctx sample_maps = Some (0, s')
       \<and> events s' = [evt] \<and> event.exit_code evt = 42) \<and>
   (\<exists>s' evt. handle_exit (sample_env 3 0x0009 0x2000 True) sample_exit_ctx sample_maps = Some (0, s')
       \<and> events s' = [evt] \<and> event.exit_code evt = 137)"
  using exit_code_decoding [of sample_maps "sample_env 3 0x0000 0x2000 True" "0x0000" sample_exit_ctx]
    exit_code_decoding [of sample_maps "sample_env 3 0x2A00 0x2000 True" "0x2A00" sample_exit_ctx]
    exit_code_decoding [of sample_maps "sample_env 3 0x0009 0x2000 True" "0x0009" sample_exit_ctx]
  by (simp add: sample_exit_pid)
    (simp add: sample_maps_def sample_env_def sample_mem_def core_read_exit_code_def read_task_def)

section \<open>The fork filter\<close>

text \<open>
  Claim C2, amended. For every fork event the fork handler performs its upsert
  \<^verbatim>\<open>bpf_map_update_elem(child_pid, 1, BPF_ANY)\<close> if and only if the 16-byte name of the
  calling process matches one of the three patterns (first four bytes \<open>cron\<close>, first four
  bytes \<open>CRON\<close>, first five bytes \<open>crond\<close>), and then exactly once. The upsert stores the
  child's pid with the marker 1 (overwriting an entry already present) when the pid is
  already a key or the map holds fewer than 10240 entries; when the map is full and the
  pid is not a key it is refused and the map stays as it was. So for a pid that is not yet
  a key of a map with room, the pid is a key afterwards if and only if the name matches.
  On a non-match both maps are unchanged.
\<close>

theorem fork_filter_up_to_capacity:
  "handle_fork env ctx s =
     (0, if name_matches (bpf_get_current_comm env 16) \<and>
            (Mapping.lookup (monitored_pids s) (child_pid ctx) \<noteq> None \<or>
             Mapping.size (monitored_pids s) < 10240)
         then s\<lparr>monitored_pids := Mapping.update (child_pid ctx) 1 (monitored_pids s)\<rparr>
         else s) \<and>
   snd (handle_fork env ctx s) =
     (if name_matches (bpf_get_current_comm env 16)
      then s\<lparr>monitored_pids :=
               snd (bpf_map_update_elem (monitored_pids s) (child_pid ctx) 1 BPF_ANY)\<rparr>
      else s) \<and>
   (Mapping.lookup (monitored_pids s) (child_pid ctx) = None \<and>
    Mapping.size (monitored_pids s) < 10240 \<longrightarrow>
      (Mapping.lookup (monitored_pids (snd (handle_fork env ctx s))) (child_pid ctx) \<noteq> None
         \<longleftrightarrow> name_matches (bpf_get_current_comm env 16))) \<and>
   (name_matches (bpf_get_current_comm env 16) \<and>
    Mapping.lookup (monitored_pids s) (child_pid ctx) = None \<and>
    \<not> Mapping.size (monitored_pids s) < 10240 \<longrightarrow> snd (handle_fork env ctx s) = s) \<and>
   (\<not> name_matches (bpf_get_current_comm env 16) \<longrightarrow> snd (handle_fork env ctx s) = s)"
  by (simp add: handle_fork_eq update_any max_entries_def del: not_None_eq)

theorem fork_filter_up_to_capacity_witness:
  "snd (handle_fork (sample_fork_env ''crond'') (sample_fork_ctx 4242) init_maps) = sample_maps \<and>
   snd (handle_fork (sample_fork_env ''bash'') (sample_fork_ctx 4242) init_maps) = init_maps \<and>
   snd (handle_fork (sample_fork_env ''crond'') (sample_fork_ctx 10240)
          \<lparr>monitored_pids = full_map, events = []\<rparr>) = \<lparr>monitored_pids = full_map, events = []\<rparr>"
  using fork_filter_up_to_capacity [of "sample_fork_env ''crond''" "sample_fork_ctx 4242" init_maps]
    fork_filter_up_to_capacity [of "sample_fork_env ''bash''" "sample_fork_ctx 4242" init_maps]
    fork_filter_up_to_capacity [of "sample_fork_env ''crond''" "sample_fork_ctx 10240"
      "\<lparr>monitored_pids = full_map, events = []\<rparr>"]
    sample_name_cron sample_name_bash size_full_map lookup_full_map
  by (simp add: sample_maps_def init_maps_def)

text \<open>
  Claim C2 as it is stated, without the proviso on capacity, fails: with the Tracking Map
  holding the 10240 keys 0 to 10239, a fork by \<open>crond\<close> with child 10240 matches the
  filter, yet 10240 is not a key of the map afterwards.
\<close>

theorem fork_filter_counterexample:
  "\<not> (Mapping.lookup
         (monitored_pids (snd (handle_fork (sample_fork_env ''crond'') (sample_fork_ctx 10240)
            \<lparr>monitored_pids = full_map, events = []\<rparr>))) 10240 \<noteq> None
       \<longleftrightarrow> name_matches (bpf_get_current_comm (sample_fork_env ''crond'') 16))"
  using sample_name_cron size_full_map lookup_full_map
  by (simp add: handle_fork_eq update_any max_entries_def)

section \<open>Namespace pid resolution\<close>

text \<open>
  Claim C3. For a task whose pid structure \<open>ps\<close> can be read, the resolver returns the id
  stored at index \<open>level\<close> when \<open>1 \<le> level \<le> 7\<close>, and the id at index 0 otherwise (level 0,
  or level 8 and above). Depth 0 gives the outermost id, depth 3 the id at index 3, depth 9
  the id at index 0.
\<close>

theorem ns_pid_resolution:
  assumes "read_task km task = Some t" and "read_pid km (thread_pid t) = Some ps"
  shows "\<exists>u. numbers_at ps (if 1 \<le> unat (level ps) \<and> unat (level ps) \<le> 7
                             then unat (level ps) else 0) = Some u \<and>
             get_task_ns_pid km task = Some (nr u)"
  using assms
  by (auto simp: get_task_ns_pid_def core_read_numbers_nr_def core_read_thread_pid_def
      core_read_level_def numbers_at_def numbers_len_def Let_def word_less_nat_alt)

theorem ns_pid_resolution_witness:
  "get_task_ns_pid (sample_mem 0 0 0x2000) 0x1000 = Some 100 \<and>
   get_task_ns_pid (sample_mem 3 0 0x2000) 0x1000 = Some 103 \<and>
   get_task_ns_pid (sample_mem 9 0 0x2000) 0x1000 = Some 100"
  using
    ns_pid_resolution [of "sample_mem 0 0 0x2000" "0x1000" _ "\<lparr>level = 0, numbers = sample_numbers\<rparr>"]
    ns_pid_resolution [of "sample_mem 3 0 0x2000" "0x1000" _ "\<lparr>level = 3, numbers = sample_numbers\<rparr>"]
    ns_pid_resolution [of "sample_mem 9 0 0x2000" "0x1000" _ "\<lparr>level = 9, numbers = sample_numbers\<rparr>"]
  by (simp add: read_task_def read_pid_def sample_mem_def numbers_at_def numbers_len_def
      sample_numbers_def)

section \<open>The invariant of the Tracking Map\<close>

text \<open>
  Claim C4. Start from the empty Tracking Map and run any sequence of fork and exit events
  in which no insert is lost to capacity. Afterwards a pid \<open>p\<close> has an entry in the map if
  and only if some event of the sequence is a fork with child \<open>p\<close> whose calling process
  matched the name filter, and no event after that fork is an exit of \<open>p\<close>.
\<close>

theorem tracking_invariant:
  assumes "no_insert_lost init_maps es"
  shows "\<exists>s. run init_maps es = Some s \<and>
    (\<forall>p. Mapping.lookup (monitored_pids s) p \<noteq> None \<longleftrightarrow>
       (\<exists>i \<in> {0..<length es}. matching_fork (es ! i) p \<and>
          (\<forall>j \<in> {i + 1..<length es}. \<not> exit_of (es ! j) p)))"
  using run_tracked_iff [OF assms]
  unfolding tracked_def tracked_by_trace_def .

theorem tracking_invariant_witness:
  "no_insert_lost init_maps sample_trace \<and>
   (\<exists>s. run init_maps sample_trace = Some s \<and>
      Mapping.lookup (monitored_pids s) 777 \<noteq> None \<and>
      Mapping.lookup (monitored_pids s) 4242 = None \<and>
      Mapping.lookup (monitored_pids s) 555 = None)"
proof -
  from tracking_invariant [OF sample_trace_no_loss] obtain s where
    r: "run init_maps sample_trace = Some s" and
    t: "\<And>p. Mapping.lookup (monitored_pids s) p \<noteq> None \<longleftrightarrow>
       (\<exists>i \<in> {0..<length sample_trace}. matching_fork (sample_trace ! i) p \<and>
          (\<forall>j \<in> {i + 1..<length sample_trace}. \<not> exit_of (sample_trace ! j) p))"
    by blast
  have len: "length sample_trace = 4" by (simp add: sample_trace_def)
  have ivl: "{0..<4::nat} = {0, 1, 2, 3}" "{Suc 0..<4} = {1, 2, 3}" "{2..<4::nat} = {2, 3}"
    "{3..<4::nat} = {3}"
    by auto
  have a: "Mapping.lookup (monitored_pids s) 777 \<noteq> None"
    unfolding t len ivl
    by (simp add: sample_trace_def sample_name_CRON sample_exit_pid)
  have b: "Mapping.lookup (monitored_pids s) 4242 = None"
    using t [of 4242] unfolding len ivl
    by (simp add: sample_trace_def sample_name_CRON sample_name_cron sample_name_bash
        sample_exit_pid ivl)
  have c: "Mapping.lookup (monitored_pids s) 555 = None"
    using t [of 555] unfolding len ivl
    by (simp add: sample_trace_def sample_name_CRON sample_name_cron sample_name_bash
        sample_exit_pid ivl)
  show ?thesis using sample_trace_no_loss r a b c by simp
qed

section \<open>The exit of a tracked process\<close>

text \<open>
  Claim C5. When the exiting pid has an entry in the Tracking Map, the exit handler
  returns 0, appends exactly one record to the channel if the channel has room and none
  otherwise, and in both cases deletes the entry of that pid. After any further events
  among which no fork matches the filter with that pid as its child, a second exit with
  the same pid finds no entry and leaves both maps as they are: it emits nothing.
\<close>

theorem tracked_exit_emits_once:
  assumes "Mapping.lookup (monitored_pids s) (exit_pid env) \<noteq> None"
  shows "\<exists>s'. handle_exit env ctx s = Some (0, s') \<and>
      (\<exists>evt. events s' = (if perf_room env then events s @ [evt] else events s)) \<and>
      monitored_pids s' = Mapping.delete (exit_pid env) (monitored_pids s) \<and>
      Mapping.lookup (monitored_pids s') (exit_pid env) = None \<and>
      (\<forall>es env2 ctx2.
          (\<forall>e \<in> set es. \<not> matching_fork e (exit_pid env)) \<and> exit_pid env2 = exit_pid env \<longrightarrow>
          (\<exists>s''. run s' es = Some s'' \<and> handle_exit env2 ctx2 s'' = Some (0, s'')))"
proof -
  obtain v1 where v1: "get_task_ns_pid (mem env) (current_task env) = Some v1"
    using get_task_ns_pid_total by blast
  obtain v2 where v2: "(if core_read_real_parent (mem env) (current_task env) \<noteq> 0
       then get_task_ns_pid (mem env) (core_read_real_parent (mem env) (current_task env))
       else Some 0) = Some v2"
    using parent_ns_total by blast
  define s' where "s' = \<lparr>monitored_pids = Mapping.delete (exit_pid env) (monitored_pids s),
              events = (if perf_room env then events s @
                 [\<lparr>pid = exit_pid env,
                   parent_pid = core_read_pid (mem env)
                      (core_read_real_parent (mem env) (current_task env)),
                   ns_pid = v1,
                   ns_parent_pid = v2,
                   exit_code = decode_status (core_read_exit_code (mem env) (current_task env)),
                   comm = bpf_get_current_comm env 16\<rparr>]
                 else events s)\<rparr>"
  have h: "handle_exit env ctx s = Some (0, s')"
    unfolding s'_def by (rule handle_exit_hit [OF assms v1 v2])
  have ev: "\<exists>evt. events s' = (if perf_room env then events s @ [evt] else events s)"
    by (simp add: s'_def)
  have m: "monitored_pids s' = Mapping.delete (exit_pid env) (monitored_pids s)"
    by (simp add: s'_def)
  then have u: "\<not> tracked s' (exit_pid env)"
    by (simp add: tracked_def)
  have later: "\<exists>s''. run s' es = Some s'' \<and> handle_exit env2 ctx2 s'' = Some (0, s'')"
    if "\<forall>e \<in> set es. \<not> matching_fork e (exit_pid env)" and "exit_pid env2 = exit_pid env"
    for es env2 ctx2
  proof -
    obtain s'' where r: "run s' es = Some s''" using run_total by blast
    from run_untracked [OF r u that(1)] that(2)
    have "Mapping.lookup (monitored_pids s'') (exit_pid env2) = None"
      by (simp add: tracked_def)
    then have "handle_exit env2 ctx2 s'' = Some (0, s'')" by (rule handle_exit_miss)
    with r show ?thesis by simp
  qed
  from h ev m u later show ?thesis
    by (auto simp: tracked_def simp del: not_None_eq)
qed

theorem tracked_exit_emits_once_witness:
  "\<exists>s'. handle_exit (sample_env 3 0x2A00 0x2000 True) sample_exit_ctx sample_maps = Some (0, s') \<and>
      length (events s') = 1 \<and>
      Mapping.lookup (monitored_pids s') 4242 = None \<and>
      (\<exists>s''. run s' [Fork (sample_fork_env ''bash'') (sample_fork_ctx 4242),
                      Fork (sample_fork_env ''crond'') (sample_fork_ctx 555)] = Some s'' \<and>
         handle_exit (sample_env 3 0x0009 0x2000 True) sample_exit_ctx s'' = Some (0, s''))"
proof -
  let ?env = "sample_env 3 0x2A00 0x2000 True"
  let ?es = "[Fork (sample_fork_env ''bash'') (sample_fork_ctx 4242),
              Fork (sample_fork_env ''crond'') (sample_fork_ctx 555)]"
  from tracked_exit_emits_once [OF sample_hit, of 3 "0x2A00" "0x2000" True sample_exit_ctx]
  obtain s' where
    h: "handle_exit ?env sample_exit_ctx sample_maps = Some (0, s')" and
    ev: "\<exists>evt. events s' = (if perf_room ?env then events sample_maps @ [evt]
                             else events sample_maps)" and
    l: "Mapping.lookup (monitored_pids s') (exit_pid ?env) = None" and
    later: "\<And>es env2 ctx2.
          (\<forall>e \<in> set es. \<not> matching_fork e (exit_pid ?env)) \<and> exit_pid env2 = exit_pid ?env \<Longrightarrow>
          (\<exists>s''. run s' es = Some s'' \<and> handle_exit env2 ctx2 s'' = Some (0, s''))"
    by blast
  from ev have "length (events s') = 1"
    by (auto simp: sample_env_def sample_maps_def)
  moreover from l have "Mapping.lookup (monitored_pids s') 4242 = None"
    by (simp add: sample_exit_pid)
  moreover have "\<exists>s''. run s' ?es = Some s'' \<and>
      handle_exit (sample_env 3 0x0009 0x2000 True) sample_exit_ctx s'' = Some (0, s'')"
    by (rule later) (simp add: sample_exit_pid sample_name_bash)
  ultimately show ?thesis using h by blast
qed

section \<open>The fields of the emitted record\<close>

text \<open>
  Claim C6. The record emitted for a tracked exit is, field by field in the order of
  \<^verbatim>\<open>struct event\<close>: \<open>pid\<close>, the upper half of the current pid/tgid word; \<open>parent_pid\<close>,
  the pid of the task that \<open>real_parent\<close> points to in the memory seen by the exit handler;
  \<open>ns_pid\<close> and \<open>ns_parent_pid\<close>, the resolver applied to the task and to its real parent
  (0 for a null parent); the decoded \<open>exit_code\<close>; and \<open>comm\<close>, the sixteen bytes of the
  name the task has when the exit handler runs. The five integers are 32 bits wide and
  \<open>comm\<close> is 16 bytes long. Nothing of the record comes from the fork: the state carries
  no name.
\<close>

theorem exit_event_fields:
  assumes "Mapping.lookup (monitored_pids s) (exit_pid env) \<noteq> None"
    and "perf_room env"
    and "read_task (mem env) (current_task env) = Some t"
  shows "\<exists>evt n1 n2.
      handle_exit env ctx s =
        Some (0, \<lparr>monitored_pids = Mapping.delete (exit_pid env) (monitored_pids s),
                  events = events s @ [evt]\<rparr>) \<and>
      get_task_ns_pid (mem env) (current_task env) = Some n1 \<and>
      (if real_parent t = 0 then Some 0 else get_task_ns_pid (mem env) (real_parent t)) = Some n2 \<and>
      evt = \<lparr>pid = ucast (drop_bit 32 (current_pid_tgid env)),
             parent_pid = (case read_task (mem env) (real_parent t) of
                             None \<Rightarrow> 0 | Some parent \<Rightarrow> task_struct.pid parent),
             ns_pid = n1,
             ns_parent_pid = n2,
             exit_code = (if task_struct.exit_code t AND 0x7F \<noteq> 0
                          then 128 + (task_struct.exit_code t AND 0x7F)
                          else drop_bit 8 (task_struct.exit_code t) AND 0xFF),
             comm = take 16 (current_comm env @ replicate 16 0)\<rparr> \<and>
      size (event.pid evt) = 32 \<and> size (event.parent_pid evt) = 32 \<and>
      size (ns_pid evt) = 32 \<and> size (ns_parent_pid evt) = 32 \<and>
      size (event.exit_code evt) = 32 \<and> length (comm evt) = 16 \<and>
      (length (current_comm env) = 16 \<longrightarrow> comm evt = current_comm env)"
proof -
  obtain v1 where v1: "get_task_ns_pid (mem env) (current_task env) = Some v1"
    using get_task_ns_pid_total by blast
  obtain v2 where v2: "(if core_read_real_parent (mem env) (current_task env) \<noteq> 0
       then get_task_ns_pid (mem env) (core_read_real_parent (mem env) (current_task env))
       else Some 0) = Some v2"
    using parent_ns_total by blast
  have p: "core_read_real_parent (mem env) (current_task env) = real_parent t"
    and e: "core_read_exit_code (mem env) (current_task env) = task_struct.exit_code t"
    using assms(3) by (simp_all add: core_read_real_parent_def core_read_exit_code_def)
  have v2': "(if real_parent t = 0 then Some 0 else get_task_ns_pid (mem env) (real_parent t))
      = Some v2"
    using v2 unfolding p by (cases "real_parent t = 0") simp_all
  show ?thesis
    using handle_exit_hit [OF assms(1) v1 v2, of ctx] assms(2) v1 v2'
    by (simp add: p e core_read_pid_def decode_status_def exit_pid_def
        bpf_get_current_comm_def word_size)
qed

theorem exit_event_fields_witness:
  "handle_exit (sample_env 3 0x2A00 0x2000 True) sample_exit_ctx
      (snd (handle_fork (sample_fork_env ''crond'') (sample_fork_ctx 4242) init_maps)) =
    Some (0, \<lparr>monitored_pids = Mapping.delete 4242 (Mapping.update 4242 1 Mapping.empty),
              events = [\<lparr>pid = 4242, parent_pid = 900, ns_pid = 103, ns_parent_pid = 900,
                         exit_code = 42,
                         comm = map c_char ''backup.sh'' @ replicate 7 0\<rparr>]\<rparr>)"
proof -
  have f: "snd (handle_fork (sample_fork_env ''crond'') (sample_fork_ctx 4242) init_maps)
      = sample_maps"
    using sample_name_cron
    by (simp add: handle_fork_eq update_any max_entries_def init_maps_def sample_maps_def)
  have t: "read_task (mem (sample_env 3 0x2A00 0x2000 True))
      (current_task (sample_env 3 0x2A00 0x2000 True)) =
      Some \<lparr>task_struct.pid = 4242, real_parent = 0x2000, thread_pid = 0x3000,
            task_struct.exit_code = 0x2A00, exit_signal = 17\<rparr>"
    by (simp add: sample_env_def sample_mem_def read_task_def)
  have room: "perf_room (sample_env 3 0x2A00 0x2000 True)"
    by (simp add: sample_env_def)
  from exit_event_fields [OF sample_hit room t, of sample_exit_ctx]
  obtain evt n1 n2 where
    h: "handle_exit (sample_env 3 0x2A00 0x2000 True) sample_exit_ctx sample_maps =
        Some (0, \<lparr>monitored_pids = Mapping.delete (exit_pid (sample_env 3 0x2A00 0x2000 True))
                     (monitored_pids sample_maps),
                  events = events sample_maps @ [evt]\<rparr>)" and
    n1: "get_task_ns_pid (mem (sample_env 3 0x2A00 0x2000 True))
           (current_task (sample_env 3 0x2A00 0x2000 True)) = Some n1" and
    n2: "get_task_ns_pid (mem (sample_env 3 0x2A00 0x2000 True)) 0x2000 = Some n2" and
    evt: "evt = \<lparr>pid = ucast (drop_bit 32 (current_pid_tgid (sample_env 3 0x2A00 0x2000 True))),
             parent_pid = (case read_task (mem (sample_env 3 0x2A00 0x2000 True)) 0x2000 of
                             None \<Rightarrow> 0 | Some parent \<Rightarrow> task_struct.pid parent),
             ns_pid = n1,
             ns_parent_pid = n2,
             exit_code = 42,
             comm = take 16 (current_comm (sample_env 3 0x2A00 0x2000 True) @ replicate 16 0)\<rparr>"
    by auto
  from n1 have "n1 = 103" by (simp add: sample_env_def sample_ns_pid)
  moreover from n2 have "n2 = 900" by (simp add: sample_env_def sample_parent_ns_pid)
  ultimately have "evt = \<lparr>pid = 4242, parent_pid = 900, ns_pid = 103, ns_parent_pid = 900,
      exit_code = 42, comm = map c_char ''backup.sh'' @ replicate 7 0\<rparr>"
    unfolding evt by (simp add: sample_env_def sample_mem_def read_task_def)
  with h show ?thesis
    unfolding f by (simp add: sample_exit_pid sample_maps_def)
qed

section \<open>Return values and the capacity boundary\<close>

text \<open>
  Claim C7. Both handlers return 0 on every input. When the Tracking Map holds 10240
  entries and the child's pid is not among them, the upsert fails (\<open>-E2BIG\<close>), the fork
  handler still returns 0, and the maps are exactly as before, so every existing entry is
  intact.
\<close>

theorem handlers_return_zero:
  "fst (handle_fork env fctx s) = 0 \<and>
   (\<exists>s'. handle_exit env ectx s = Some (0, s')) \<and>
   (Mapping.size (monitored_pids s) = 10240 \<and>
    Mapping.lookup (monitored_pids s) (child_pid fctx) = None \<longrightarrow>
      bpf_map_update_elem (monitored_pids s) (child_pid fctx) 1 BPF_ANY
        = (- 7, monitored_pids s) \<and>
      handle_fork env fctx s = (0, s))"
  using handle_exit_total [of env ectx s]
  by (simp add: handle_fork_eq update_any max_entries_def)

theorem handlers_return_zero_witness:
  "Mapping.size full_map = 10240 \<and> Mapping.lookup full_map 10240 = None \<and>
   name_matches (bpf_get_current_comm (sample_fork_env ''crond'') 16) \<and>
   handle_fork (sample_fork_env ''crond'') (sample_fork_ctx 10240)
      \<lparr>monitored_pids = full_map, events = []\<rparr>
     = (0, \<lparr>monitored_pids = full_map, events = []\<rparr>)"
  using handlers_return_zero [of "sample_fork_env ''crond''" "sample_fork_ctx 10240"
      "\<lparr>monitored_pids = full_map, events = []\<rparr>" sample_exit_ctx]
    size_full_map lookup_full_map sample_name_cron
  by (simp add: sample_fork_ctx_def)

section \<open>An exit that is not tracked\<close>

text \<open>
  Claim C8. When the exiting pid has no entry in the Tracking Map, the exit handler has
  no effect: it returns 0 with both maps as they were, so nothing is emitted and the
  Tracking Map is unchanged.
\<close>

theorem exit_miss_no_effect:
  assumes "Mapping.lookup (monitored_pids s) (exit_pid env) = None"
  shows "handle_exit env ctx s = Some (0, s)"
  using assms by (rule handle_exit_miss)

theorem exit_miss_no_effect_witness:
  "Mapping.lookup (monitored_pids \<lparr>monitored_pids = Mapping.update 17 1 Mapping.empty, events = []\<rparr>)
      (exit_pid (sample_env 3 0 0x2000 True)) = None \<and>
   handle_exit (sample_env 3 0 0x2000 True) sample_exit_ctx
       \<lparr>monitored_pids = Mapping.update 17 1 Mapping.empty, events = []\<rparr>
     = Some (0, \<lparr>monitored_pids = Mapping.update 17 1 Mapping.empty, events = []\<rparr>)"
  using exit_miss_no_effect [of "\<lparr>monitored_pids = Mapping.update 17 1 Mapping.empty, events = []\<rparr>"
      "sample_env 3 0 0x2000 True" sample_exit_ctx]
  by (simp add: sample_exit_pid)

section \<open>Array reads of the resolver\<close>

text \<open>
  Claim C9. The resolver indexes the eight-entry array \<open>numbers\<close> with \<open>level\<close> only under
  the guard \<open>0 < level < 8\<close> and with 0 otherwise. For every value \<open>l\<close> of the depth counter
  the index is below the length of the array, the checked read returns a value, and the
  resolver never reaches the out-of-bounds result \<open>None\<close>, whatever the memory and the
  task handle are.
\<close>

theorem ns_pid_reads_in_bounds:
  "(if 0 < l \<and> l < (8::u32) then unat l else 0) < numbers_len \<and>
   numbers_at ps (if 0 < level ps \<and> level ps < 8 then unat (level ps) else 0) \<noteq> None \<and>
   core_read_numbers_nr km p (if 0 < l \<and> l < 8 then unat l else 0) \<noteq> None \<and>
   get_task_ns_pid km task \<noteq> None"
  using get_task_ns_pid_total [of km task]
  by (auto simp: numbers_at_def numbers_len_def core_read_numbers_nr_def word_less_nat_alt
      split: option.splits)

theorem ns_pid_reads_in_bounds_witness:
  "numbers_at \<lparr>level = 9, numbers = sample_numbers\<rparr> 0 \<noteq> None \<and>
   core_read_numbers_nr (sample_mem 9 0 0x2000) 0x3000 7 \<noteq> None \<and>
   get_task_ns_pid (sample_mem 9 0 0x2000) 0x1000 \<noteq> None"
  using ns_pid_reads_in_bounds [of 7 "\<lparr>level = 9, numbers = sample_numbers\<rparr>"
      "sample_mem 9 0 0x2000" "0x3000" "0x1000"]
  by simp

section \<open>A null real parent\<close>

text \<open>
  Claim C10. When the real-parent pointer of the exiting task is \<^verbatim>\<open>NULL\<close>, the emitted
  record reports 0 both in \<open>ns_parent_pid\<close> and in the global \<open>parent_pid\<close>: the read of
  the parent's pid through the null pointer yields 0.
\<close>

theorem null_parent_reports_zero:
  assumes "Mapping.lookup (monitored_pids s) (exit_pid env) \<noteq> None"
    and "perf_room env"
    and "read_task (mem env) (current_task env) = Some t"
    and "real_parent t = 0"
  shows "\<exists>s' evt. handle_exit env ctx s = Some (0, s') \<and> events s' = events s @ [evt] \<and>
           event.parent_pid evt = 0 \<and> ns_parent_pid evt = 0"
proof -
  obtain v1 where v1: "get_task_ns_pid (mem env) (current_task env) = Some v1"
    using get_task_ns_pid_total by blast
  have p0: "core_read_real_parent (mem env) (current_task env) = 0"
    using assms(3,4) by (simp add: core_read_real_parent_def)
  have v2: "(if core_read_real_parent (mem env) (current_task env) \<noteq> 0
       then get_task_ns_pid (mem env) (core_read_real_parent (mem env) (current_task env))
       else Some 0) = Some 0"
    using p0 by simp
  have "core_read_pid (mem env) 0 = 0"
    by (simp add: core_read_pid_def read_task_def)
  then show ?thesis
    using handle_exit_hit [OF assms(1) v1 v2, of ctx] assms(2) p0 by simp
qed

theorem null_parent_reports_zero_witness:
  "\<exists>s' evt. handle_exit (sample_env 3 0 0 True) sample_exit_ctx sample_maps = Some (0, s') \<and>
      events s' = [evt] \<and> event.parent_pid evt = 0 \<and> ns_parent_pid evt = 0"
  using null_parent_reports_zero [of sample_maps "sample_env 3 0 0 True" _ sample_exit_ctx]
  by (simp add: sample_exit_pid)
    (simp add: sample_maps_def sample_env_def sample_mem_def read_task_def)

end
